theory Spec2Isabelle
  imports Main
begin

section \<open>JavaScript values\<close>

text \<open>
  The client is TypeScript. Its interfaces (\<open>Exercise\<close>, \<open>Session\<close>, \<open>UserState\<close>) are
  erased at run time, and every value that reaches the store or a screen from the backend
  is the result of \<open>await response.json()\<close>, typed \<open>any\<close>. Such values are modelled as
  what they are at run time: JSON values, together with \<open>undefined\<close>, the result of reading
  a property that an object does not have. Numbers are integers here (counters, no
  arithmetic on them is done by the client).
\<close>

datatype jsval =
    JUndefined
  | JNull
  | JBool bool
  | JNum int
  | JStr string
  | JArr "jsval list"
  | JObj "(string \<times> jsval) list"

datatype js_error = TypeError

text \<open>
  \<open>x.k\<close>: reading a property of \<open>null\<close> or \<open>undefined\<close> throws a TypeError; an object
  yields the property or \<open>undefined\<close>; the other values have none of the properties this
  program reads (\<open>id\<close>, \<open>exercises\<close>, \<open>prescription_type\<close>, ...).
\<close>

fun js_get :: "jsval \<Rightarrow> string \<Rightarrow> js_error + jsval" where
  "js_get JUndefined k = Inl TypeError"
| "js_get JNull k = Inl TypeError"
| "js_get (JObj kvs) k = Inr (case map_of kvs k of None \<Rightarrow> JUndefined | Some v \<Rightarrow> v)"
| "js_get (JBool b) k = Inr JUndefined"
| "js_get (JNum n) k = Inr JUndefined"
| "js_get (JStr s) k = Inr JUndefined"
| "js_get (JArr xs) k = Inr JUndefined"

text \<open>\<open>x?.k\<close>: optional chaining yields \<open>undefined\<close> where \<open>x.k\<close> would throw.\<close>

definition js_get_opt :: "jsval \<Rightarrow> string \<Rightarrow> jsval" where
  "js_get_opt x k = (case js_get x k of Inl e \<Rightarrow> JUndefined | Inr v \<Rightarrow> v)"

text \<open>Truthiness, as \<open>!x\<close>, \<open>x || y\<close> and \<open>if (x)\<close> read it.\<close>

fun truthy :: "jsval \<Rightarrow> bool" where
  "truthy JUndefined = False"
| "truthy JNull = False"
| "truthy (JBool b) = b"
| "truthy (JNum n) = (n \<noteq> 0)"
| "truthy (JStr s) = (s \<noteq> [])"
| "truthy (JArr xs) = True"
| "truthy (JObj kvs) = True"

definition js_or :: "jsval \<Rightarrow> jsval \<Rightarrow> jsval" where
  "js_or a b = (if truthy a then a else b)"

text \<open>\<open>JSON.stringify\<close> of an object literal leaves out the properties whose value is
  \<open>undefined\<close>. The request body is kept as the value that is serialised.\<close>

definition stringify_obj :: "(string \<times> jsval) list \<Rightarrow> jsval" where
  "stringify_obj kvs = JObj (filter (\<lambda>kv. snd kv \<noteq> JUndefined) kvs)"

text \<open>A computation that may throw: \<open>Inl\<close> is the exception.\<close>

definition js_bind :: "'e + 'a \<Rightarrow> ('a \<Rightarrow> 'e + 'b) \<Rightarrow> 'e + 'b" where
  "js_bind m f = (case m of Inl e \<Rightarrow> Inl e | Inr v \<Rightarrow> f v)"

section \<open>Effects of the client\<close>

text \<open>
  What a handler does besides updating state: the HTTP requests it issues with \<open>fetch\<close>
  (method, path under BACKEND_URL, body), navigation with the router, alerts and
  \<open>console.error\<close>. A handler returns the new state and the effects in the order it
  performs them.
\<close>

datatype http_method = GET | POST | PUT

datatype effect =
    Fetch http_method string jsval
  | RouterPush string
  | RouterReplace string
  | AlertShown string
  | ConsoleError string

fun is_fetch :: "effect \<Rightarrow> bool" where
  "is_fetch (Fetch m u b) = True"
| "is_fetch (RouterPush u) = False"
| "is_fetch (RouterReplace u) = False"
| "is_fetch (AlertShown t) = False"
| "is_fetch (ConsoleError t) = False"

definition requests :: "effect list \<Rightarrow> effect list" where
  "requests effs = filter is_fetch effs"

text \<open>
  What \<open>await fetch(...)\<close> followed by \<open>await response.json()\<close> gives a handler: the
  fetch rejects (no connection), or it resolves with a response of any status
  (\<open>response.ok\<close> is the flag for a 2xx status) whose body either parses as JSON or does
  not, in which case \<open>response.json()\<close> rejects.
\<close>

datatype response =
    NetworkError
  | HttpResponse bool "jsval option"

section \<open>The store (src/store/trainingStore)\<close>

datatype Feeling = Feeling_bad | Feeling_ok | Feeling_great
datatype Sleep = Sleep_bad | Sleep_good
datatype Pain = Pain_none | Pain_present
datatype TimeAvailable = Time_20_30 | Time_30_45 | Time_45_60
datatype Equipment = Home | Minimal | Bodyweight

fun feeling_str :: "Feeling \<Rightarrow> string" where
  "feeling_str Feeling_bad = ''bad''"
| "feeling_str Feeling_ok = ''ok''"
| "feeling_str Feeling_great = ''great''"

fun sleep_str :: "Sleep \<Rightarrow> string" where
  "sleep_str Sleep_bad = ''bad''"
| "sleep_str Sleep_good = ''good''"

fun pain_str :: "Pain \<Rightarrow> string" where
  "pain_str Pain_none = ''none''"
| "pain_str Pain_present = ''present''"

fun time_str :: "TimeAvailable \<Rightarrow> string" where
  "time_str Time_20_30 = ''20-30''"
| "time_str Time_30_45 = ''30-45''"
| "time_str Time_45_60 = ''45-60''"

fun equipment_str :: "Equipment \<Rightarrow> string" where
  "equipment_str Home = ''home''"
| "equipment_str Minimal = ''minimal''"
| "equipment_str Bodyweight = ''bodyweight''"

text \<open>\<open>QuestionnaireState\<close> of index.tsx: every answer is \<open>null\<close> until the user gives it.\<close>

record QuestionnaireState =
  feeling :: "Feeling option"
  sleep :: "Sleep option"
  pain :: "Pain option"
  time_available :: "TimeAvailable option"
  equipment :: "Equipment option"

definition nullable :: "('a \<Rightarrow> string) \<Rightarrow> 'a option \<Rightarrow> jsval" where
  "nullable f x = (case x of None \<Rightarrow> JNull | Some v \<Rightarrow> JStr (f v))"

text \<open>The questionnaire object as \<open>JSON.stringify\<close> sees it: five own properties.\<close>

definition questionnaire_fields :: "QuestionnaireState \<Rightarrow> (string \<times> jsval) list" where
  "questionnaire_fields q =
     [(''feeling'', nullable feeling_str (feeling q)),
      (''sleep'', nullable sleep_str (sleep q)),
      (''pain'', nullable pain_str (pain q)),
      (''time_available'', nullable time_str (time_available q)),
      (''equipment'', nullable equipment_str (equipment q))]"

text \<open>
  \<open>TrainingStore\<close>: \<open>currentSession\<close> and \<open>userState\<close> hold what the backend sent
  (\<open>null\<close> at first); \<open>lastQuestionnaire\<close> and \<open>overrideBucket\<close> are set from the
  client's own state.
\<close>

record TrainingStore =
  currentSession :: jsval
  userState :: jsval
  lastQuestionnaire :: "QuestionnaireState option"
  overrideBucket :: "string option"

definition initial_store :: TrainingStore where
  "initial_store =
     \<lparr>currentSession = JNull, userState = JNull, lastQuestionnaire = None, overrideBucket = None\<rparr>"

definition setCurrentSession :: "jsval \<Rightarrow> TrainingStore \<Rightarrow> TrainingStore" where
  "setCurrentSession session st = st\<lparr>currentSession := session\<rparr>"

definition setUserState :: "jsval \<Rightarrow> TrainingStore \<Rightarrow> TrainingStore" where
  "setUserState state st = st\<lparr>userState := state\<rparr>"

definition setOverrideBucket :: "string option \<Rightarrow> TrainingStore \<Rightarrow> TrainingStore" where
  "setOverrideBucket bucket st = st\<lparr>overrideBucket := bucket\<rparr>"

text \<open>\<open>fetchUserState\<close>: GET /api/state, then \<open>set({ userState: data })\<close>; a rejection is
  caught and logged.\<close>

definition fetchUserState :: "response \<Rightarrow> TrainingStore \<Rightarrow> TrainingStore \<times> effect list" where
  "fetchUserState r st =
     (case r of
        NetworkError \<Rightarrow>
          (st, [Fetch GET ''/api/state'' JUndefined, ConsoleError ''Error fetching user state:''])
      | HttpResponse ok None \<Rightarrow>
          (st, [Fetch GET ''/api/state'' JUndefined, ConsoleError ''Error fetching user state:''])
      | HttpResponse ok (Some data) \<Rightarrow>
          (setUserState data st, [Fetch GET ''/api/state'' JUndefined]))"

text \<open>
  \<open>toggleCooldownOverride\<close>: returns at once when \<open>userState\<close> is falsy; otherwise PUTs
  \<open>{ cooldown_override: !userState.cooldown_override }\<close> to /api/settings and stores the
  parsed reply as the new \<open>userState\<close>. A truthy \<open>userState\<close> is neither \<open>null\<close> nor
  \<open>undefined\<close>, so reading its property does not throw.
\<close>

definition toggleCooldownOverride :: "response \<Rightarrow> TrainingStore \<Rightarrow> TrainingStore \<times> effect list" where
  "toggleCooldownOverride r st =
     (if \<not> truthy (userState st) then (st, [])
      else
        (let newValue = \<not> truthy (js_get_opt (userState st) ''cooldown_override'');
             req = Fetch PUT ''/api/settings'' (stringify_obj [(''cooldown_override'', JBool newValue)])
         in case r of
              NetworkError \<Rightarrow> (st, [req, ConsoleError ''Error toggling cooldown override:''])
            | HttpResponse ok None \<Rightarrow> (st, [req, ConsoleError ''Error toggling cooldown override:''])
            | HttpResponse ok (Some data) \<Rightarrow> (setUserState data st, [req])))"

section \<open>session.tsx\<close>

text \<open>
  The session screen: the store, and the component's own state. \<open>exercises\<close> starts as
  \<open>currentSession?.exercises || []\<close> and is afterwards whatever the handlers set.
\<close>

record SessionScreen =
  store :: TrainingStore
  loading :: bool
  swappingId :: "string option"
  exercises :: jsval

definition open_session_screen :: "TrainingStore \<Rightarrow> SessionScreen" where
  "open_session_screen st =
     \<lparr>store = st, loading = False, swappingId = None,
      exercises = js_or (js_get_opt (currentSession st) ''exercises'') (JArr [])\<rparr>"

text \<open>
  \<open>handleReroll\<close>: nothing without a stored questionnaire; otherwise POST /api/reroll with
  the stored questionnaire as the whole body, \<open>setCurrentSession(session)\<close>, then
  \<open>setExercises(session.exercises)\<close>. Whatever is thrown on the way is caught and logged,
  the updates made before it stand, and \<open>finally\<close> clears \<open>loading\<close>.
\<close>

definition handleReroll :: "response \<Rightarrow> SessionScreen \<Rightarrow> SessionScreen \<times> effect list" where
  "handleReroll r s =
     (case lastQuestionnaire (store s) of
        None \<Rightarrow> (s, [])
      | Some q \<Rightarrow>
          (let req = Fetch POST ''/api/reroll'' (JObj (questionnaire_fields q));
               failed = ConsoleError ''Error rerolling session:''
           in case r of
                NetworkError \<Rightarrow> (s\<lparr>loading := False\<rparr>, [req, failed])
              | HttpResponse ok None \<Rightarrow> (s\<lparr>loading := False\<rparr>, [req, failed])
              | HttpResponse ok (Some session) \<Rightarrow>
                  (let s1 = s\<lparr>store := setCurrentSession session (store s)\<rparr>
                   in case js_get session ''exercises'' of
                        Inl e \<Rightarrow> (s1\<lparr>loading := False\<rparr>, [req, failed])
                      | Inr exs \<Rightarrow> (s1\<lparr>exercises := exs, loading := False\<rparr>, [req]))))"

text \<open>\<open>xs.map(f)\<close> where \<open>f\<close> may throw: the first exception ends the map.\<close>

fun map_throwing :: "('a \<Rightarrow> js_error + 'b) \<Rightarrow> 'a list \<Rightarrow> js_error + 'b list" where
  "map_throwing f [] = Inr []"
| "map_throwing f (x # xs) =
     js_bind (f x) (\<lambda>y. js_bind (map_throwing f xs) (\<lambda>ys. Inr (y # ys)))"

text \<open>\<open>exercises.map(...)\<close>: a TypeError unless \<open>exercises\<close> is an array.\<close>

definition array_map :: "(jsval \<Rightarrow> js_error + jsval) \<Rightarrow> jsval \<Rightarrow> js_error + jsval" where
  "array_map f a =
     (case a of
        JArr xs \<Rightarrow> js_bind (map_throwing f xs) (\<lambda>ys. Inr (JArr ys))
      | _ \<Rightarrow> Inl TypeError)"

text \<open>
  \<open>handleSwap\<close>: POST /api/swap with the session's id, the exercise's id and the session's
  equipment; the parsed reply \<open>newExercise\<close> takes the place of every exercise whose
  \<open>id\<close> is \<open>exerciseId\<close>. Neither \<open>response.ok\<close> nor the reply's shape is looked at. A
  rejection is caught and logged, and \<open>finally\<close> clears \<open>swappingId\<close>.
\<close>

definition swap_body :: "jsval \<Rightarrow> string \<Rightarrow> js_error + jsval" where
  "swap_body session exerciseId =
     js_bind (js_get session ''id'') (\<lambda>session_id.
     js_bind (js_get session ''equipment'') (\<lambda>equip.
       Inr (stringify_obj
         [(''session_id'', session_id), (''exercise_id'', JStr exerciseId), (''equipment'', equip)])))"

definition handleSwap :: "string \<Rightarrow> response \<Rightarrow> SessionScreen \<Rightarrow> SessionScreen \<times> effect list" where
  "handleSwap exerciseId r s =
     (let failed = ConsoleError ''Error swapping exercise:''
      in case swap_body (currentSession (store s)) exerciseId of
           Inl e \<Rightarrow> (s\<lparr>swappingId := None\<rparr>, [failed])
         | Inr body \<Rightarrow>
             (let req = Fetch POST ''/api/swap'' body
              in case r of
                   NetworkError \<Rightarrow> (s\<lparr>swappingId := None\<rparr>, [req, failed])
                 | HttpResponse ok None \<Rightarrow> (s\<lparr>swappingId := None\<rparr>, [req, failed])
                 | HttpResponse ok (Some newExercise) \<Rightarrow>
                     (case array_map
                             (\<lambda>ex. js_bind (js_get ex ''id'')
                                (\<lambda>i. Inr (if i = JStr exerciseId then newExercise else ex)))
                             (exercises s) of
                        Inl e \<Rightarrow> (s\<lparr>swappingId := None\<rparr>, [req, failed])
                      | Inr updatedExercises \<Rightarrow>
                          (s\<lparr>exercises := updatedExercises, swappingId := None\<rparr>, [req]))))"

text \<open>
  \<open>handleComplete\<close>: POST /api/complete with the session's id and the feedback; once the
  fetch resolves (the reply is not read), \<open>setCurrentSession(null)\<close>,
  \<open>setOverrideBucket(null)\<close> and \<open>router.replace('/')\<close>.
\<close>

datatype Feedback = Good | NotGood

fun feedback_str :: "Feedback \<Rightarrow> string" where
  "feedback_str Good = ''good''"
| "feedback_str NotGood = ''not_good''"

definition handleComplete :: "Feedback \<Rightarrow> response \<Rightarrow> SessionScreen \<Rightarrow> SessionScreen \<times> effect list" where
  "handleComplete fb r s =
     (let failed = ConsoleError ''Error completing session:''
      in case js_get (currentSession (store s)) ''id'' of
           Inl e \<Rightarrow> (s\<lparr>loading := False\<rparr>, [failed])
         | Inr session_id \<Rightarrow>
             (let req = Fetch POST ''/api/complete''
                          (stringify_obj [(''session_id'', session_id), (''feedback'', JStr (feedback_str fb))])
              in case r of
                   NetworkError \<Rightarrow> (s\<lparr>loading := False\<rparr>, [req, failed])
                 | HttpResponse ok body \<Rightarrow>
                     (s\<lparr>store := setOverrideBucket None (setCurrentSession JNull (store s)),
                        loading := False\<rparr>,
                      [req, RouterReplace ''/''])))"

text \<open>
  \<open>handleDiscard\<close> shows an alert with two buttons. "Keep Session" has no handler;
  "Discard" runs \<open>setCurrentSession(null); router.replace('/')\<close>.
\<close>

datatype DiscardChoice = KeepSession | Discard

definition handleDiscard :: "DiscardChoice \<Rightarrow> SessionScreen \<Rightarrow> SessionScreen \<times> effect list" where
  "handleDiscard choice s =
     (case choice of
        KeepSession \<Rightarrow> (s, [AlertShown ''Discard Session?''])
      | Discard \<Rightarrow>
          (s\<lparr>store := setCurrentSession JNull (store s)\<rparr>,
           [AlertShown ''Discard Session?'', RouterReplace ''/'']))"

subsection \<open>The volume display\<close>

record VolumeDisplay =
  label :: string
  val :: jsval

text \<open>
  \<open>getVolumeDisplay\<close>. The three branches are those of the source, in its order; the
  last one is the \<open>else\<close> that the source comments as KB_STRENGTH, BW_DYNAMIC,
  POWER_SWING.
\<close>

definition getVolumeDisplay :: "jsval \<Rightarrow> js_error + VolumeDisplay" where
  "getVolumeDisplay exercise =
     js_bind (js_get exercise ''prescription_type'') (\<lambda>prescriptionType.
       if prescriptionType = JStr ''ISOMETRIC_HOLD'' then
         js_bind (js_get exercise ''hold_time'') (\<lambda>v.
           Inr \<lparr>label = ''Hold'', val = js_or v (JStr ''10-20s'')\<rparr>)
       else if prescriptionType = JStr ''CARRY_TIME'' \<or> prescriptionType = JStr ''CRAWL_TIME'' then
         js_bind (js_get exercise ''time'') (\<lambda>v.
           Inr \<lparr>label = ''Time'', val = js_or v (JStr ''30-60s'')\<rparr>)
       else
         js_bind (js_get exercise ''reps'') (\<lambda>v.
           Inr \<lparr>label = ''Reps'', val = js_or v (JStr ''5'')\<rparr>))"

section \<open>index.tsx\<close>

record HomeScreen =
  hstore :: TrainingStore
  questionnaire :: QuestionnaireState
  hloading :: bool
  showFocusModal :: bool
  showCooldownModal :: bool

definition empty_questionnaire :: QuestionnaireState where
  "empty_questionnaire =
     \<lparr>feeling = None, sleep = None, pain = None, time_available = None, equipment = None\<rparr>"

definition open_home_screen :: "TrainingStore \<Rightarrow> HomeScreen" where
  "open_home_screen st =
     \<lparr>hstore = st, questionnaire = empty_questionnaire, hloading = False,
      showFocusModal = False, showCooldownModal = False\<rparr>"

definition isComplete :: "QuestionnaireState \<Rightarrow> bool" where
  "isComplete q =
     (feeling q \<noteq> None \<and> sleep q \<noteq> None \<and> pain q \<noteq> None \<and>
      time_available q \<noteq> None \<and> equipment q \<noteq> None)"

text \<open>\<open>overrideBucket || undefined\<close>: \<open>null\<close> and the empty string give \<open>undefined\<close>.\<close>

definition override_or_undefined :: "string option \<Rightarrow> jsval" where
  "override_or_undefined b =
     (case b of None \<Rightarrow> JUndefined | Some s \<Rightarrow> js_or (JStr s) JUndefined)"

text \<open>The payload of \<open>generateSession\<close>:
  \<open>{ ...questionnaire, override_bucket: overrideBucket || undefined }\<close>, as serialised.\<close>

definition generate_payload :: "HomeScreen \<Rightarrow> jsval" where
  "generate_payload h =
     stringify_obj
       (questionnaire_fields (questionnaire h) @
        [(''override_bucket'', override_or_undefined (overrideBucket (hstore h)))])"

text \<open>
  \<open>generateSession\<close>: nothing unless the questionnaire is complete; otherwise POST
  /api/generate with the payload, store the parsed reply as the current session, remember
  the questionnaire (without the override) and push the session screen.
\<close>

definition generateSession :: "response \<Rightarrow> HomeScreen \<Rightarrow> HomeScreen \<times> effect list" where
  "generateSession r h =
     (if \<not> isComplete (questionnaire h) then (h, [])
      else
        (let req = Fetch POST ''/api/generate'' (generate_payload h);
             failed = ConsoleError ''Error generating session:''
         in case r of
              NetworkError \<Rightarrow> (h\<lparr>hloading := False\<rparr>, [req, failed])
            | HttpResponse ok None \<Rightarrow> (h\<lparr>hloading := False\<rparr>, [req, failed])
            | HttpResponse ok (Some session) \<Rightarrow>
                (h\<lparr>hstore := (setCurrentSession session (hstore h))
                              \<lparr>lastQuestionnaire := Some (questionnaire h)\<rparr>,
                   hloading := False\<rparr>,
                 [req, RouterPush ''/session''])))"

definition BUCKET_ORDER :: "string list" where
  "BUCKET_ORDER = [''squat'', ''pull'', ''hinge'', ''push'']"

text \<open>
  \<open>handleBucketSelect\<close>: \<open>bucket === userState?.next_priority_bucket\<close> resets the
  override to \<open>null\<close>, any other bucket becomes the override; the modal closes.
\<close>

definition handleBucketSelect :: "string \<Rightarrow> HomeScreen \<Rightarrow> HomeScreen" where
  "handleBucketSelect bucket h =
     (if JStr bucket = js_get_opt (userState (hstore h)) ''next_priority_bucket''
      then h\<lparr>hstore := setOverrideBucket None (hstore h), showFocusModal := False\<rparr>
      else h\<lparr>hstore := setOverrideBucket (Some bucket) (hstore h), showFocusModal := False\<rparr>)"

section \<open>Requests reaching the backend\<close>

text \<open>
  The backend's state changes only when a request reaches it. Whatever the backend does
  with a request (\<open>backend\<close>, any function of its state and the request), the state after
  a handler has run is the fold of \<open>backend\<close> over the requests the handler issued.
\<close>

definition deliver :: "('srv \<Rightarrow> effect \<Rightarrow> 'srv) \<Rightarrow> effect list \<Rightarrow> 'srv \<Rightarrow> 'srv" where
  "deliver backend effs srv = foldl backend srv (requests effs)"

section \<open>Session exercises as the client declares them\<close>

text \<open>
  The \<open>Exercise\<close> interface of the store and of session.tsx: \<open>reps\<close>, \<open>hold_time\<close>,
  \<open>time\<close>, \<open>tempo\<close> and \<open>notes\<close> are optional, the rest are strings. The interface comments
  \<open>reps\<close> as "For KB_STRENGTH, BW_DYNAMIC, POWER_SWING", \<open>hold_time\<close> as "For
  ISOMETRIC_HOLD" and \<open>time\<close> as "For CARRY_TIME, CRAWL_TIME".
\<close>

record Exercise =
  ex_id :: string
  ex_name :: string
  category :: string
  prescription_type :: string
  load_level :: string
  protocol_id :: string
  protocol_name :: string
  protocol_description :: string
  sets :: string
  reps :: "string option"
  hold_time :: "string option"
  time :: "string option"
  rest :: string
  tempo :: "string option"
  ex_notes :: "string option"

definition optional :: "string \<Rightarrow> string option \<Rightarrow> (string \<times> jsval) list" where
  "optional k v = (case v of None \<Rightarrow> [] | Some s \<Rightarrow> [(k, JStr s)])"

text \<open>An \<open>Exercise\<close> as the object the client holds: an optional field that is absent is
  no property at all.\<close>

definition exercise_json :: "Exercise \<Rightarrow> jsval" where
  "exercise_json e =
     JObj ([(''id'', JStr (ex_id e)),
            (''name'', JStr (ex_name e)),
            (''category'', JStr (category e)),
            (''prescription_type'', JStr (prescription_type e)),
            (''load_level'', JStr (load_level e)),
            (''protocol_id'', JStr (protocol_id e)),
            (''protocol_name'', JStr (protocol_name e)),
            (''protocol_description'', JStr (protocol_description e)),
            (''sets'', JStr (sets e)),
            (''rest'', JStr (rest e))]
           @ optional ''reps'' (reps e)
           @ optional ''hold_time'' (hold_time e)
           @ optional ''time'' (time e)
           @ optional ''tempo'' (tempo e)
           @ optional ''notes'' (ex_notes e))"







section \<open>admin.tsx: the protocol form\<close>





section \<open>The decision engine\<close>

text \<open>
  Modelled from the spec: the backend (its Day-Type Classifier, Cooldown/Override
  Controller, Priority-Bucket Rotator, Session Assembler, and the Generate, Reroll,
  Complete, GetState and UpdateSettings operations) is not among the client's sources.
  The definitions of this section follow sections 3, 4 and 6 of the specification.
\<close>

datatype DayType = Easy | Medium | Hard
datatype Bucket = Squat | Pull | Hinge | Push
datatype WeekMode = Week_A | Week_B
datatype PowerFrequency = Weekly | Fortnightly

text \<open>Modelled from the spec: the names of the four rotation buckets.\<close>

fun bucket_str :: "Bucket \<Rightarrow> string" where
  "bucket_str Squat = ''squat''"
| "bucket_str Pull = ''pull''"
| "bucket_str Hinge = ''hinge''"
| "bucket_str Push = ''push''"

text \<open>Modelled from the spec: the UserState of section 3 (a timestamp is a string, as the
  client's interface declares it).\<close>

record UserState =
  next_priority_bucket :: Bucket
  week_mode :: WeekMode
  cooldown_counter :: nat
  cooldown_override :: bool
  power_last_used :: "string option"
  last_hard_day :: bool
  power_frequency :: PowerFrequency

text \<open>Modelled from the spec: the defaults a UserState is created with (section 3); the
  two fields the specification gives no default for start absent and false.\<close>

definition default_state :: UserState where
  "default_state =
     \<lparr>next_priority_bucket = Squat, week_mode = Week_A, cooldown_counter = 0,
      cooldown_override = False, power_last_used = None, last_hard_day = False,
      power_frequency = Fortnightly\<rparr>"

text \<open>Modelled from the spec: the Questionnaire of section 3, every answer given, with
  the optional override bucket (a category name).\<close>

record Questionnaire =
  q_feeling :: Feeling
  q_sleep :: Sleep
  q_pain :: Pain
  q_time_available :: TimeAvailable
  q_equipment :: Equipment
  q_override_bucket :: "string option"

text \<open>Modelled from the spec: the Session of section 3.\<close>

record Session =
  session_id :: string
  timestamp :: string
  day_type :: DayType
  priority_bucket :: string
  session_exercises :: "Exercise list"
  time_slot :: TimeAvailable
  session_equipment :: Equipment
  session_week_mode :: WeekMode

text \<open>Modelled from the spec: the errors of section 7.\<close>

datatype engine_error = ValidationError | NoCandidateError | NoAlternativeError

subsection \<open>Day-Type Classifier and Cooldown Controller (4.1, 4.2)\<close>

text \<open>Modelled from the spec: rule 1 of section 4.1, the "real trigger".\<close>

definition real_trigger :: "Questionnaire \<Rightarrow> bool" where
  "real_trigger q = (q_pain q = Pain_present \<or> q_feeling q = Feeling_bad \<or> q_sleep q = Sleep_bad)"

text \<open>Modelled from the spec: rule 3 of section 4.1, in its order: great and good is
  hard; great exclusive-or good is medium; ok is medium; anything else is easy.\<close>

definition classify_answers :: "Feeling \<Rightarrow> Sleep \<Rightarrow> DayType" where
  "classify_answers f s =
     (if f = Feeling_great \<and> s = Sleep_good then Hard
      else if (f = Feeling_great) \<noteq> (s = Sleep_good) then Medium
      else if f = Feeling_ok then Medium
      else Easy)"

text \<open>Modelled from the spec: the transition "real trigger fires" of section 4.2.\<close>

definition fire_trigger :: "UserState \<Rightarrow> UserState" where
  "fire_trigger st = st\<lparr>cooldown_counter := 2, cooldown_override := False\<rparr>"

text \<open>Modelled from the spec: the three rules of section 4.1, first match wins. The
  result is the day type and the state the rule leaves.\<close>

definition determine_day_type :: "Questionnaire \<Rightarrow> UserState \<Rightarrow> DayType \<times> UserState" where
  "determine_day_type q st =
     (if real_trigger q then (Easy, fire_trigger st)
      else if cooldown_counter st > 0 \<and> \<not> cooldown_override st then (Easy, st)
      else (classify_answers (q_feeling q) (q_sleep q), st))"

subsection \<open>Priority-Bucket Rotator (4.3)\<close>

text \<open>Modelled from the spec: the cycle squat, pull, hinge, push, squat.\<close>

fun successor :: "Bucket \<Rightarrow> Bucket" where
  "successor Squat = Pull"
| "successor Pull = Hinge"
| "successor Hinge = Push"
| "successor Push = Squat"

text \<open>Modelled from the spec: the resolved bucket is the override if present, else the
  stored next bucket.\<close>

definition resolve_bucket :: "string option \<Rightarrow> UserState \<Rightarrow> string" where
  "resolve_bucket override st =
     (case override of None \<Rightarrow> bucket_str (next_priority_bucket st) | Some b \<Rightarrow> b)"

subsection \<open>Session Assembler, Generate and Reroll (4.7, 4.9)\<close>

text \<open>
  Modelled from the spec: the Exercise Selector, the Power Gate and the Protocol Assigner,
  run for every slot over the library with a source of randomness, are taken as one
  function of the equipment, the resolved bucket, the day type and the state, which
  yields the ordered exercises or fails with NoCandidateError (4.5). How many slots there
  are and which exercises fill them is left to it.
\<close>

type_synonym selector = "Equipment \<Rightarrow> string \<Rightarrow> DayType \<Rightarrow> UserState \<Rightarrow> engine_error + Exercise list"

text \<open>Modelled from the spec: the Session Assembler of section 4.7. The time slot echoes
  the questionnaire's time available; id and timestamp are fresh.\<close>

definition assemble ::
  "string \<Rightarrow> string \<Rightarrow> Questionnaire \<Rightarrow> UserState \<Rightarrow> DayType \<Rightarrow> string \<Rightarrow> Exercise list \<Rightarrow> Session" where
  "assemble new_id now q st dt bucket exs =
     \<lparr>session_id = new_id, timestamp = now, day_type = dt, priority_bucket = bucket,
      session_exercises = exs, time_slot = q_time_available q,
      session_equipment = q_equipment q, session_week_mode = week_mode st\<rparr>"

text \<open>
  Modelled from the spec: Generate. The classifier runs on the stored state, the bucket
  is resolved, the exercises are selected and the session assembled. The state returned
  is the one the classifier left (changed by a real trigger only). A failure returns the
  error alone: the stored state stays as it was (section 7).
\<close>

definition Generate ::
  "selector \<Rightarrow> string \<Rightarrow> string \<Rightarrow> Questionnaire \<Rightarrow> UserState \<Rightarrow> engine_error + (Session \<times> UserState)" where
  "Generate select new_id now q st =
     (let (dt, st') = determine_day_type q st;
          bucket = resolve_bucket (q_override_bucket q) st
      in case select (q_equipment q) bucket dt st of
           Inl err \<Rightarrow> Inl err
         | Inr exs \<Rightarrow> Inr (assemble new_id now q st dt bucket exs, st'))"

text \<open>Modelled from the spec: a flag of Reroll that the caller leaves out has its
  default, true (sections 4.9 and 6).\<close>

definition flag_or_true :: "bool option \<Rightarrow> bool" where
  "flag_or_true f = (case f of None \<Rightarrow> True | Some b \<Rightarrow> b)"

text \<open>
  Modelled from the spec: Reroll (4.9). Day type and bucket are recomputed only if the
  corresponding flag is false, and otherwise taken from the session being rerolled; the
  selection is run again and a new session assembled. Reroll is read-only with respect to
  the state (section 7).
\<close>

definition Reroll ::
  "selector \<Rightarrow> string \<Rightarrow> string \<Rightarrow> Questionnaire \<Rightarrow> bool option \<Rightarrow> bool option \<Rightarrow> Session \<Rightarrow> UserState
     \<Rightarrow> engine_error + Session" where
  "Reroll select new_id now q preserve_day_type preserve_priority_bucket prev st =
     (let dt = (if flag_or_true preserve_day_type then day_type prev
                else fst (determine_day_type q st));
          bucket = (if flag_or_true preserve_priority_bucket then priority_bucket prev
                    else resolve_bucket (q_override_bucket q) st)
      in case select (q_equipment q) bucket dt st of
           Inl err \<Rightarrow> Inl err
         | Inr exs \<Rightarrow> Inr (assemble new_id now q st dt bucket exs))"

subsection \<open>Completion Handler (4.10), GetState and UpdateSettings (6)\<close>

text \<open>Modelled from the spec: the cooldown effect of the feedback (4.2).\<close>

definition apply_feedback :: "Feedback \<Rightarrow> UserState \<Rightarrow> UserState" where
  "apply_feedback fb st =
     (case fb of
        NotGood \<Rightarrow> fire_trigger st
      | Good \<Rightarrow> (if cooldown_counter st > 0
                 then st\<lparr>cooldown_counter := cooldown_counter st - 1\<rparr> else st))"

text \<open>
  Modelled from the spec: Complete (4.10). \<open>with_power\<close> says whether the completed session
  included a power exercise. The rotation advances from the stored next bucket.
\<close>

definition Complete :: "Session \<Rightarrow> bool \<Rightarrow> Feedback \<Rightarrow> string \<Rightarrow> UserState \<Rightarrow> UserState" where
  "Complete sess with_power fb now st =
     (apply_feedback fb st)
       \<lparr>next_priority_bucket := successor (next_priority_bucket st),
        power_last_used := (if with_power then Some now else power_last_used st),
        last_hard_day := (day_type sess = Hard)\<rparr>"

text \<open>Modelled from the spec: GetState returns the stored state (section 6).\<close>

definition GetState :: "UserState \<Rightarrow> UserState" where
  "GetState st = st"

text \<open>Modelled from the spec: the settings write of section 6, each field optional.\<close>

record Settings =
  set_week_mode :: "WeekMode option"
  set_power_frequency :: "PowerFrequency option"
  set_cooldown_override :: "bool option"

text \<open>Modelled from the spec: UpdateSettings stores each field that is given and leaves
  the rest of the state as it is.\<close>

definition UpdateSettings :: "Settings \<Rightarrow> UserState \<Rightarrow> UserState" where
  "UpdateSettings u st =
     st\<lparr>week_mode := (case set_week_mode u of None \<Rightarrow> week_mode st | Some w \<Rightarrow> w),
        power_frequency := (case set_power_frequency u of None \<Rightarrow> power_frequency st | Some p \<Rightarrow> p),
        cooldown_override := (case set_cooldown_override u of None \<Rightarrow> cooldown_override st | Some b \<Rightarrow> b)\<rparr>"

subsection \<open>Requests as the client sends them\<close>

text \<open>
  Modelled from the spec: how the backend reads the bodies the client sends. The
  specification gives the operations' parameters and leaves the transport open; a body is
  read as the client writes it, the questionnaire's answers as properties of the body and
  the optional parameters beside them. A questionnaire with an answer missing or outside
  its range is a ValidationError (section 7); \<open>override_bucket\<close> and the two flags of
  Reroll are optional.
\<close>

definition decode_feeling :: "jsval \<Rightarrow> Feeling option" where
  "decode_feeling v =
     (if v = JStr ''bad'' then Some Feeling_bad
      else if v = JStr ''ok'' then Some Feeling_ok
      else if v = JStr ''great'' then Some Feeling_great
      else None)"

definition decode_sleep :: "jsval \<Rightarrow> Sleep option" where
  "decode_sleep v =
     (if v = JStr ''bad'' then Some Sleep_bad
      else if v = JStr ''good'' then Some Sleep_good
      else None)"

definition decode_pain :: "jsval \<Rightarrow> Pain option" where
  "decode_pain v =
     (if v = JStr ''none'' then Some Pain_none
      else if v = JStr ''present'' then Some Pain_present
      else None)"

definition decode_time :: "jsval \<Rightarrow> TimeAvailable option" where
  "decode_time v =
     (if v = JStr ''20-30'' then Some Time_20_30
      else if v = JStr ''30-45'' then Some Time_30_45
      else if v = JStr ''45-60'' then Some Time_45_60
      else None)"

definition decode_equipment :: "jsval \<Rightarrow> Equipment option" where
  "decode_equipment v =
     (if v = JStr ''home'' then Some Home
      else if v = JStr ''minimal'' then Some Minimal
      else if v = JStr ''bodyweight'' then Some Bodyweight
      else None)"

text \<open>Modelled from the spec: an optional property is absent, \<open>null\<close>, or of its type.\<close>

fun decode_override :: "jsval \<Rightarrow> engine_error + string option" where
  "decode_override JUndefined = Inr None"
| "decode_override JNull = Inr None"
| "decode_override (JStr b) = Inr (Some b)"
| "decode_override (JBool b) = Inl ValidationError"
| "decode_override (JNum n) = Inl ValidationError"
| "decode_override (JArr xs) = Inl ValidationError"
| "decode_override (JObj kvs) = Inl ValidationError"

fun decode_flag :: "jsval \<Rightarrow> engine_error + bool option" where
  "decode_flag JUndefined = Inr None"
| "decode_flag JNull = Inr None"
| "decode_flag (JBool b) = Inr (Some b)"
| "decode_flag (JStr s) = Inl ValidationError"
| "decode_flag (JNum n) = Inl ValidationError"
| "decode_flag (JArr xs) = Inl ValidationError"
| "decode_flag (JObj kvs) = Inl ValidationError"

text \<open>Modelled from the spec: the Questionnaire of a request body, all five answers
  required.\<close>

definition decode_questionnaire :: "jsval \<Rightarrow> engine_error + Questionnaire" where
  "decode_questionnaire body =
     (case (decode_feeling (js_get_opt body ''feeling''),
            decode_sleep (js_get_opt body ''sleep''),
            decode_pain (js_get_opt body ''pain''),
            decode_time (js_get_opt body ''time_available''),
            decode_equipment (js_get_opt body ''equipment'')) of
        (Some f, Some s, Some p, Some t, Some e) \<Rightarrow>
          js_bind (decode_override (js_get_opt body ''override_bucket'')) (\<lambda>ob.
            Inr \<lparr>q_feeling = f, q_sleep = s, q_pain = p, q_time_available = t,
                 q_equipment = e, q_override_bucket = ob\<rparr>)
      | _ \<Rightarrow> Inl ValidationError)"

text \<open>Modelled from the spec: Generate and Reroll on a request body; Reroll on "the
  session being rerolled", \<open>prev\<close>.\<close>

definition generate_request ::
  "selector \<Rightarrow> string \<Rightarrow> string \<Rightarrow> jsval \<Rightarrow> UserState \<Rightarrow> engine_error + (Session \<times> UserState)" where
  "generate_request select new_id now body st =
     js_bind (decode_questionnaire body) (\<lambda>q. Generate select new_id now q st)"

definition reroll_request ::
  "selector \<Rightarrow> string \<Rightarrow> string \<Rightarrow> jsval \<Rightarrow> Session \<Rightarrow> UserState \<Rightarrow> engine_error + Session" where
  "reroll_request select new_id now body prev st =
     js_bind (decode_questionnaire body) (\<lambda>q.
     js_bind (decode_flag (js_get_opt body ''preserve_day_type'')) (\<lambda>pd.
     js_bind (decode_flag (js_get_opt body ''preserve_priority_bucket'')) (\<lambda>pb.
       Reroll select new_id now q pd pb prev st)))"

text \<open>
  A failed operation as the client's admin screen reads it (\<open>saveExercise\<close>,
  \<open>saveProtocol\<close>): \<open>response.ok\<close> is false and the body is an object whose \<open>detail\<close>
  is the message.
\<close>

definition error_reply :: "string \<Rightarrow> response" where
  "error_reply detail = HttpResponse False (Some (JObj [(''detail'', JStr detail)]))"

text \<open>Modelled from the spec: UpdateSettings on a request body, each property optional.\<close>

definition decode_week_mode :: "jsval \<Rightarrow> engine_error + WeekMode option" where
  "decode_week_mode v =
     (if v = JUndefined \<or> v = JNull then Inr None
      else if v = JStr ''A'' then Inr (Some Week_A)
      else if v = JStr ''B'' then Inr (Some Week_B)
      else Inl ValidationError)"

definition decode_power_frequency :: "jsval \<Rightarrow> engine_error + PowerFrequency option" where
  "decode_power_frequency v =
     (if v = JUndefined \<or> v = JNull then Inr None
      else if v = JStr ''weekly'' then Inr (Some Weekly)
      else if v = JStr ''fortnightly'' then Inr (Some Fortnightly)
      else Inl ValidationError)"

definition decode_settings :: "jsval \<Rightarrow> engine_error + Settings" where
  "decode_settings body =
     js_bind (decode_week_mode (js_get_opt body ''week_mode'')) (\<lambda>w.
     js_bind (decode_power_frequency (js_get_opt body ''power_frequency'')) (\<lambda>p.
     js_bind (decode_flag (js_get_opt body ''cooldown_override'')) (\<lambda>c.
       Inr \<lparr>set_week_mode = w, set_power_frequency = p, set_cooldown_override = c\<rparr>)))"

definition settings_request :: "jsval \<Rightarrow> UserState \<Rightarrow> engine_error + UserState" where
  "settings_request body st = js_bind (decode_settings body) (\<lambda>u. Inr (UpdateSettings u st))"

text \<open>Modelled from the spec: the UserState as GetState and UpdateSettings send it, with
  the property names of the client's \<open>UserState\<close> interface. The interface's \<open>id\<close>, which
  the specification's UserState does not have, is left out.\<close>

definition user_state_json :: "UserState \<Rightarrow> jsval" where
  "user_state_json st =
     JObj [(''next_priority_bucket'', JStr (bucket_str (next_priority_bucket st))),
           (''week_mode'', JStr (case week_mode st of Week_A \<Rightarrow> ''A'' | Week_B \<Rightarrow> ''B'')),
           (''cooldown_counter'', JNum (int (cooldown_counter st))),
           (''cooldown_override'', JBool (cooldown_override st)),
           (''power_last_used'', (case power_last_used st of None \<Rightarrow> JNull | Some t \<Rightarrow> JStr t)),
           (''last_hard_day'', JBool (last_hard_day st)),
           (''power_frequency'',
              JStr (case power_frequency st of Weekly \<Rightarrow> ''weekly'' | Fortnightly \<Rightarrow> ''fortnightly''))]"

section \<open>What the volume display shows\<close>




section \<open>Example data\<close>

definition squat_exercise :: Exercise where
  "squat_exercise =
     \<lparr>ex_id = ''goblet_squat'', ex_name = ''Goblet Squat'', category = ''squat'',
      prescription_type = ''KB_STRENGTH'', load_level = ''24kg'', protocol_id = ''strength_5x5'',
      protocol_name = ''5x5'', protocol_description = ''Five sets of five'', sets = ''5'',
      reps = Some ''5'', hold_time = None, time = None, rest = ''90s'', tempo = None,
      ex_notes = None\<rparr>"

definition plank_exercise :: Exercise where
  "plank_exercise =
     \<lparr>ex_id = ''plank'', ex_name = ''Plank'', category = ''crawl'',
      prescription_type = ''ISOMETRIC_HOLD'', load_level = ''bodyweight'', protocol_id = ''hold_3'',
      protocol_name = ''Holds'', protocol_description = ''Three holds'', sets = ''3'',
      reps = None, hold_time = Some ''20s'', time = None, rest = ''60s'', tempo = None,
      ex_notes = None\<rparr>"

definition example_session_json :: jsval where
  "example_session_json =
     JObj [(''id'', JStr ''s1''), (''day_type'', JStr ''hard''), (''priority_bucket'', JStr ''squat''),
           (''exercises'', JArr [exercise_json squat_exercise, exercise_json plank_exercise]),
           (''time_slot'', JStr ''30-45''), (''equipment'', JStr ''bodyweight''),
           (''week_mode'', JStr ''A'')]"

definition example_session_screen :: SessionScreen where
  "example_session_screen =
     open_session_screen (initial_store\<lparr>currentSession := example_session_json\<rparr>)"

definition fresh_user_state_json :: jsval where
  "fresh_user_state_json =
     JObj [(''id'', JStr ''default''), (''next_priority_bucket'', JStr ''squat''),
           (''week_mode'', JStr ''A''), (''cooldown_counter'', JNum 0),
           (''cooldown_override'', JBool False), (''power_last_used'', JNull),
           (''last_hard_day'', JBool False), (''power_frequency'', JStr ''fortnightly'')]"

text \<open>A state as the client holds it during a cooldown with the override on.\<close>

definition cooling_user_state_json :: jsval where
  "cooling_user_state_json =
     JObj [(''id'', JStr ''default''), (''next_priority_bucket'', JStr ''squat''),
           (''week_mode'', JStr ''A''), (''cooldown_counter'', JNum 1),
           (''cooldown_override'', JBool True), (''power_last_used'', JNull),
           (''last_hard_day'', JBool False), (''power_frequency'', JStr ''fortnightly'')]"




definition example_answers :: QuestionnaireState where
  "example_answers =
     \<lparr>feeling = Some Feeling_great, sleep = Some Sleep_good, pain = Some Pain_none,
      time_available = Some Time_30_45, equipment = Some Minimal\<rparr>"

text \<open>The home screen after 'squat' was chosen in the focus modal before any state was
  loaded, and the same screen once \<open>fetchUserState\<close> has then loaded the state.\<close>

definition early_select_home :: HomeScreen where
  "early_select_home =
     (handleBucketSelect ''squat'' (open_home_screen initial_store))
       \<lparr>questionnaire := example_answers\<rparr>"

definition late_loaded_home :: HomeScreen where
  "late_loaded_home =
     early_select_home
       \<lparr>hstore := fst (fetchUserState (HttpResponse True (Some fresh_user_state_json))
                        (hstore early_select_home))\<rparr>"

definition example_selector :: selector where
  "example_selector equip bucket dt st = Inr [squat_exercise, plank_exercise]"

definition painful_questionnaire :: Questionnaire where
  "painful_questionnaire =
     \<lparr>q_feeling = Feeling_great, q_sleep = Sleep_good, q_pain = Pain_present,
      q_time_available = Time_30_45, q_equipment = Minimal, q_override_bucket = None\<rparr>"

definition overridden_state :: UserState where
  "overridden_state = default_state\<lparr>cooldown_counter := 1, cooldown_override := True\<rparr>"

definition override_home :: HomeScreen where
  "override_home =
     (open_home_screen
        (initial_store\<lparr>userState := user_state_json default_state, overrideBucket := Some ''pull''\<rparr>))
       \<lparr>questionnaire := example_answers\<rparr>"

definition example_questionnaire :: Questionnaire where
  "example_questionnaire =
     \<lparr>q_feeling = Feeling_great, q_sleep = Sleep_good, q_pain = Pain_none,
      q_time_available = Time_30_45, q_equipment = Minimal, q_override_bucket = None\<rparr>"

definition example_session :: Session where
  "example_session =
     assemble ''s3'' ''2025-01-02'' (example_questionnaire\<lparr>q_override_bucket := Some ''pull''\<rparr>)
       default_state Hard ''pull'' [squat_exercise, plank_exercise]"

definition cooling_state :: UserState where
  "cooling_state = default_state\<lparr>next_priority_bucket := Hinge, cooldown_counter := 2\<rparr>"

definition reroll_screen :: SessionScreen where
  "reroll_screen =
     example_session_screen
       \<lparr>store := (store example_session_screen)\<lparr>lastQuestionnaire := Some example_answers\<rparr>\<rparr>"

section \<open>Reading properties\<close>

lemma exercise_json_id: "js_get (exercise_json e) ''id'' = Inr (JStr (ex_id e))"
  by (simp add: exercise_json_def)





lemma example_session_screen_eq:
  "example_session_screen =
     \<lparr>store = initial_store\<lparr>currentSession := example_session_json\<rparr>, loading = False,
      swappingId = None,
      exercises = JArr [exercise_json squat_exercise, exercise_json plank_exercise]\<rparr>"
  by (simp add: example_session_screen_def open_session_screen_def example_session_json_def
      js_get_opt_def js_or_def)

section \<open>Discarding a session\<close>

text \<open>
  C1. Whatever the user chooses in the discard alert, \<open>handleDiscard\<close> issues no request,
  so the backend's state, whatever the backend does with requests, is as it was; the only
  thing it changes on the client is \<open>currentSession\<close> (set to \<open>null\<close> on "Discard"), and
  the stored \<open>userState\<close> in particular is untouched.
\<close>

theorem handleDiscard_leaves_user_state:
  "requests (snd (handleDiscard choice s)) = [] \<and>
   deliver backend (snd (handleDiscard choice s)) srv = srv \<and>
   fst (handleDiscard choice s) =
     s\<lparr>store := (store s)\<lparr>currentSession :=
          (case choice of KeepSession \<Rightarrow> currentSession (store s) | Discard \<Rightarrow> JNull)\<rparr>\<rparr> \<and>
   userState (store (fst (handleDiscard choice s))) = userState (store s)"
  by (cases choice) (simp_all add: handleDiscard_def requests_def deliver_def setCurrentSession_def)

section \<open>The volume display\<close>






text \<open>
  C9. \<open>getVolumeDisplay\<close> returns a label and a value for every exercise object, whichever
  of \<open>reps\<close>, \<open>hold_time\<close> and \<open>time\<close> it has: where the field of its branch is missing,
  the value is the default '10-20s', '30-60s' or '5'.
\<close>

theorem getVolumeDisplay_total:
  "(\<exists>d. getVolumeDisplay (JObj kvs) = Inr d) \<and>
   (js_get_opt (JObj kvs) ''prescription_type'' = JStr ''ISOMETRIC_HOLD'' \<and>
    map_of kvs ''hold_time'' = None \<longrightarrow>
      getVolumeDisplay (JObj kvs) = Inr \<lparr>label = ''Hold'', val = JStr ''10-20s''\<rparr>) \<and>
   (js_get_opt (JObj kvs) ''prescription_type'' \<in> {JStr ''CARRY_TIME'', JStr ''CRAWL_TIME''} \<and>
    map_of kvs ''time'' = None \<longrightarrow>
      getVolumeDisplay (JObj kvs) = Inr \<lparr>label = ''Time'', val = JStr ''30-60s''\<rparr>) \<and>
   (js_get_opt (JObj kvs) ''prescription_type''
      \<notin> {JStr ''ISOMETRIC_HOLD'', JStr ''CARRY_TIME'', JStr ''CRAWL_TIME''} \<and>
    map_of kvs ''reps'' = None \<longrightarrow>
      getVolumeDisplay (JObj kvs) = Inr \<lparr>label = ''Reps'', val = JStr ''5''\<rparr>)"
  by (auto simp add: getVolumeDisplay_def js_bind_def js_get_opt_def js_or_def)

theorem getVolumeDisplay_total_witness:
  "getVolumeDisplay (JObj [(''prescription_type'', JStr ''ISOMETRIC_HOLD''), (''reps'', JStr ''8'')])
     = Inr \<lparr>label = ''Hold'', val = JStr ''10-20s''\<rparr> \<and>
   getVolumeDisplay (JObj [(''prescription_type'', JStr ''CARRY_TIME'')])
     = Inr \<lparr>label = ''Time'', val = JStr ''30-60s''\<rparr> \<and>
   getVolumeDisplay (JObj []) = Inr \<lparr>label = ''Reps'', val = JStr ''5''\<rparr>"
  using getVolumeDisplay_total [of "[(''prescription_type'', JStr ''ISOMETRIC_HOLD''), (''reps'', JStr ''8'')]"]
    getVolumeDisplay_total [of "[(''prescription_type'', JStr ''CARRY_TIME'')]"]
    getVolumeDisplay_total [of "[]"]
  by (simp add: js_get_opt_def)

section \<open>Swapping an exercise\<close>

lemma handleSwap_ignores_status:
  "handleSwap exerciseId (HttpResponse ok body) s = handleSwap exerciseId (HttpResponse True body) s"
  by (simp add: handleSwap_def Let_def split: sum.splits option.splits)

text \<open>
  C3. A swap that the backend refuses reaches the client as a reply that is not ok and
  whose body is an error object. \<open>handleSwap\<close> reads neither: the error object takes the
  place of the exercise in the list, and nothing is logged or shown. Here the first of two
  exercises is swapped.
\<close>

theorem handleSwap_stores_error_payload:
  "handleSwap ''goblet_squat'' (error_reply ''No alternative exercise'') example_session_screen =
     (example_session_screen
        \<lparr>exercises :=
           JArr [JObj [(''detail'', JStr ''No alternative exercise'')], exercise_json plank_exercise]\<rparr>,
      [Fetch POST ''/api/swap''
         (JObj [(''session_id'', JStr ''s1''), (''exercise_id'', JStr ''goblet_squat''),
                (''equipment'', JStr ''bodyweight'')])])"
  unfolding example_session_screen_eq
  by (simp add: handleSwap_def swap_body_def error_reply_def js_bind_def array_map_def
      exercise_json_id stringify_obj_def initial_store_def example_session_json_def
      squat_exercise_def plank_exercise_def)

section \<open>The cooldown override toggle without a loaded state\<close>

text \<open>
  C10. With \<open>userState\<close> still \<open>null\<close>, \<open>toggleCooldownOverride\<close> returns at once: no
  request, no other effect, and the store as it was.
\<close>

theorem toggleCooldownOverride_without_state:
  "userState st = JNull \<Longrightarrow> toggleCooldownOverride r st = (st, [])"
  by (simp add: toggleCooldownOverride_def)

theorem toggleCooldownOverride_without_state_witness:
  "userState initial_store = JNull \<and>
   toggleCooldownOverride (HttpResponse True (Some (JObj [(''cooldown_override'', JBool True)])))
     initial_store = (initial_store, [])"
  using toggleCooldownOverride_without_state [of initial_store]
  by (simp add: initial_store_def)

section \<open>Choosing the focus bucket\<close>

lemma nullable_defined: "nullable f x \<noteq> JUndefined"
  by (simp add: nullable_def split: option.splits)

lemma stringify_questionnaire:
  "stringify_obj (questionnaire_fields q @ extra) =
     JObj (questionnaire_fields q @ filter (\<lambda>kv. snd kv \<noteq> JUndefined) extra)"
  by (simp add: stringify_obj_def questionnaire_fields_def nullable_defined)

lemma payload_override:
  "js_get_opt (generate_payload h) ''override_bucket'' =
     override_or_undefined (overrideBucket (hstore h))"
  unfolding generate_payload_def stringify_questionnaire
  by (simp add: js_get_opt_def questionnaire_fields_def)

lemma generateSession_requests:
  "requests (snd (generateSession r h)) =
     (if isComplete (questionnaire h) then [Fetch POST ''/api/generate'' (generate_payload h)] else [])"
  by (simp add: generateSession_def requests_def Let_def split: response.splits option.splits)

text \<open>
  C8, as amended. Selecting the bucket that equals the loaded
  \<open>userState.next_priority_bucket\<close> stores \<open>null\<close>, selecting any other bucket stores that
  bucket, and \<open>userState\<close> is not touched. A Generate request sent from the state the
  selection leaves (with any answers) therefore carries the selected bucket as
  \<open>override_bucket\<close> exactly when it differs from the loaded next bucket (and is not the
  empty string), and no \<open>override_bucket\<close> otherwise.
\<close>

theorem handleBucketSelect_override:
  "overrideBucket (hstore (handleBucketSelect bucket h)) =
     (if js_get_opt (userState (hstore h)) ''next_priority_bucket'' = JStr bucket
      then None else Some bucket) \<and>
   userState (hstore (handleBucketSelect bucket h)) = userState (hstore h) \<and>
   requests (snd (generateSession r ((handleBucketSelect bucket h)\<lparr>questionnaire := q\<rparr>))) =
     (if isComplete q
      then [Fetch POST ''/api/generate''
              (generate_payload ((handleBucketSelect bucket h)\<lparr>questionnaire := q\<rparr>))]
      else []) \<and>
   js_get_opt (generate_payload ((handleBucketSelect bucket h)\<lparr>questionnaire := q\<rparr>))
       ''override_bucket'' =
     (if js_get_opt (userState (hstore h)) ''next_priority_bucket'' = JStr bucket \<or> bucket = []
      then JUndefined else JStr bucket)"
proof -
  let ?h = "handleBucketSelect bucket h"
  have ov: "overrideBucket (hstore ?h) =
     (if js_get_opt (userState (hstore h)) ''next_priority_bucket'' = JStr bucket
      then None else Some bucket)"
    by (auto simp add: handleBucketSelect_def setOverrideBucket_def)
  have us: "userState (hstore ?h) = userState (hstore h)"
    by (simp add: handleBucketSelect_def setOverrideBucket_def)
  have rq: "requests (snd (generateSession r (?h\<lparr>questionnaire := q\<rparr>))) =
     (if isComplete q
      then [Fetch POST ''/api/generate'' (generate_payload (?h\<lparr>questionnaire := q\<rparr>))]
      else [])"
    by (simp add: generateSession_requests)
  have pl: "js_get_opt (generate_payload (?h\<lparr>questionnaire := q\<rparr>)) ''override_bucket'' =
     (if js_get_opt (userState (hstore h)) ''next_priority_bucket'' = JStr bucket \<or> bucket = []
      then JUndefined else JStr bucket)"
    by (simp add: payload_override ov override_or_undefined_def js_or_def)
  from ov us rq pl show ?thesis by blast
qed

text \<open>
  C8, as stated, fails: a bucket selected while \<open>userState\<close> is not loaded yet is
  stored as the override whatever it is, and stays when \<open>fetchUserState\<close> then loads a
  state whose next bucket is the same. The Generate request that follows carries
  \<open>override_bucket = 'squat'\<close> while the stored \<open>next_priority_bucket\<close> is \<open>'squat'\<close>.
\<close>

theorem override_equal_to_stored_bucket:
  "overrideBucket (hstore early_select_home) = Some ''squat'' \<and>
   js_get_opt (userState (hstore late_loaded_home)) ''next_priority_bucket'' = JStr ''squat'' \<and>
   requests (snd (generateSession NetworkError late_loaded_home)) =
     [Fetch POST ''/api/generate''
        (JObj [(''feeling'', JStr ''great''), (''sleep'', JStr ''good''), (''pain'', JStr ''none''),
               (''time_available'', JStr ''30-45''), (''equipment'', JStr ''minimal''),
               (''override_bucket'', JStr ''squat'')])] \<and>
   js_get_opt (generate_payload late_loaded_home) ''override_bucket'' =
     js_get_opt (userState (hstore late_loaded_home)) ''next_priority_bucket''"
  by (simp add: late_loaded_home_def early_select_home_def handleBucketSelect_def
      open_home_screen_def initial_store_def fetchUserState_def setUserState_def
      setOverrideBucket_def generateSession_def isComplete_def example_answers_def Let_def
      stringify_obj_def generate_payload_def questionnaire_fields_def nullable_def
      override_or_undefined_def js_or_def js_get_opt_def requests_def fresh_user_state_json_def)

section \<open>The real trigger\<close>

lemma determine_day_type_trigger:
  "real_trigger q \<Longrightarrow> determine_day_type q st = (Easy, fire_trigger st)"
  by (simp add: determine_day_type_def)

lemma Generate_result:
  "Generate select new_id now q st = Inr (sess, st') \<Longrightarrow>
     day_type sess = fst (determine_day_type q st) \<and>
     st' = snd (determine_day_type q st) \<and>
     priority_bucket sess = resolve_bucket (q_override_bucket q) st \<and>
     time_slot sess = q_time_available q \<and>
     session_equipment sess = q_equipment q"
  by (auto simp add: Generate_def assemble_def Let_def split: prod.splits sum.splits)

text \<open>
  C5. For a questionnaire with pain present, or feeling bad, or sleep bad, the classifier
  answers easy whatever the stored state, and leaves cooldown_counter = 2 and
  cooldown_override = false; every session Generate returns for it is an easy day, and
  the state Generate leaves, as GetState then shows it, has that counter and override.
\<close>

theorem real_trigger_classifies_easy:
  assumes "q_pain q = Pain_present \<or> q_feeling q = Feeling_bad \<or> q_sleep q = Sleep_bad"
  shows "fst (determine_day_type q st) = Easy \<and>
         cooldown_counter (snd (determine_day_type q st)) = 2 \<and>
         cooldown_override (snd (determine_day_type q st)) = False \<and>
         (\<forall>select new_id now sess st'.
            Generate select new_id now q st = Inr (sess, st') \<longrightarrow>
              day_type sess = Easy \<and>
              cooldown_counter (GetState st') = 2 \<and>
              cooldown_override (GetState st') = False)"
proof -
  from assms have trig: "real_trigger q"
    by (simp add: real_trigger_def)
  then have d: "determine_day_type q st = (Easy, fire_trigger st)"
    by (rule determine_day_type_trigger)
  have c: "cooldown_counter (fire_trigger st) = 2" "cooldown_override (fire_trigger st) = False"
    by (simp_all add: fire_trigger_def)
  show ?thesis
  proof (intro conjI allI impI)
    show "fst (determine_day_type q st) = Easy" using d by simp
    show "cooldown_counter (snd (determine_day_type q st)) = 2" using d c by simp
    show "cooldown_override (snd (determine_day_type q st)) = False" using d c by simp
  next
    fix select new_id now sess st'
    assume g: "Generate select new_id now q st = Inr (sess, st')"
    from Generate_result [OF g] d have "day_type sess = Easy" "st' = fire_trigger st"
      by simp_all
    with c show "day_type sess = Easy" "cooldown_counter (GetState st') = 2"
      "cooldown_override (GetState st') = False"
      by (simp_all add: GetState_def)
  qed
qed

theorem real_trigger_classifies_easy_witness:
  "q_pain painful_questionnaire = Pain_present \<and>
   cooldown_counter overridden_state = 1 \<and> cooldown_override overridden_state = True \<and>
   Generate example_selector ''s2'' ''2025-01-01'' painful_questionnaire overridden_state =
     Inr (assemble ''s2'' ''2025-01-01'' painful_questionnaire overridden_state Easy ''squat''
            [squat_exercise, plank_exercise],
          overridden_state\<lparr>cooldown_counter := 2, cooldown_override := False\<rparr>) \<and>
   cooldown_counter (GetState (overridden_state\<lparr>cooldown_counter := 2, cooldown_override := False\<rparr>)) = 2 \<and>
   cooldown_override (GetState (overridden_state\<lparr>cooldown_counter := 2, cooldown_override := False\<rparr>)) = False"
proof -
  have p: "q_pain painful_questionnaire = Pain_present"
    by (simp add: painful_questionnaire_def)
  have g: "Generate example_selector ''s2'' ''2025-01-01'' painful_questionnaire overridden_state =
     Inr (assemble ''s2'' ''2025-01-01'' painful_questionnaire overridden_state Easy ''squat''
            [squat_exercise, plank_exercise],
          overridden_state\<lparr>cooldown_counter := 2, cooldown_override := False\<rparr>)"
    by (simp add: Generate_def example_selector_def determine_day_type_def real_trigger_def
        fire_trigger_def resolve_bucket_def painful_questionnaire_def overridden_state_def
        default_state_def)
  from real_trigger_classifies_easy [of painful_questionnaire overridden_state] p g
  have "cooldown_counter (GetState (overridden_state\<lparr>cooldown_counter := 2, cooldown_override := False\<rparr>)) = 2 \<and>
        cooldown_override (GetState (overridden_state\<lparr>cooldown_counter := 2, cooldown_override := False\<rparr>)) = False"
    by blast
  with p g show ?thesis
    by (simp add: overridden_state_def default_state_def)
qed

section \<open>The override bucket\<close>

lemma decoded_override:
  "decode_questionnaire body = Inr q \<Longrightarrow>
     decode_override (js_get_opt body ''override_bucket'') = Inr (q_override_bucket q)"
  by (auto simp add: decode_questionnaire_def js_bind_def split: option.splits sum.splits)

lemma decode_null:
  "decode_feeling JNull = None" "decode_sleep JNull = None" "decode_pain JNull = None"
  "decode_time JNull = None" "decode_equipment JNull = None"
  by (simp_all add: decode_feeling_def decode_sleep_def decode_pain_def decode_time_def
      decode_equipment_def)

lemma payload_answers:
  "js_get_opt (generate_payload h) ''feeling'' = nullable feeling_str (feeling (questionnaire h))"
  "js_get_opt (generate_payload h) ''sleep'' = nullable sleep_str (sleep (questionnaire h))"
  "js_get_opt (generate_payload h) ''pain'' = nullable pain_str (pain (questionnaire h))"
  "js_get_opt (generate_payload h) ''time_available'' =
     nullable time_str (time_available (questionnaire h))"
  "js_get_opt (generate_payload h) ''equipment'' = nullable equipment_str (equipment (questionnaire h))"
  unfolding generate_payload_def stringify_questionnaire
  by (simp_all add: js_get_opt_def questionnaire_fields_def)

lemma decoded_complete:
  "decode_questionnaire (generate_payload h) = Inr q \<Longrightarrow> isComplete (questionnaire h)"
  by (auto simp add: decode_questionnaire_def payload_answers nullable_def decode_null
      isComplete_def split: option.splits)

lemma js_get_truthy: "truthy v \<Longrightarrow> js_get v k = Inr (js_get_opt v k)"
  by (cases v) (simp_all add: js_get_opt_def)

lemma handleComplete_resolved:
  "truthy (currentSession (store s)) \<Longrightarrow>
     handleComplete fb (HttpResponse ok body) s =
       (s\<lparr>store := setOverrideBucket None (setCurrentSession JNull (store s)), loading := False\<rparr>,
        [Fetch POST ''/api/complete''
           (stringify_obj [(''session_id'', js_get_opt (currentSession (store s)) ''id''),
                           (''feedback'', JStr (feedback_str fb))]),
         RouterReplace ''/''])"
  by (simp add: handleComplete_def js_get_truthy)

lemma Complete_rotation:
  "next_priority_bucket (Complete sess with_power fb t st) = successor (next_priority_bucket st)"
  by (simp add: Complete_def)

lemma generateSession_userState:
  "userState (hstore (fst (generateSession r h))) = userState (hstore h)"
  by (simp add: generateSession_def setCurrentSession_def Let_def split: response.splits option.splits)

text \<open>
  C6. A Generate request sent with an override bucket chosen carries it as
  \<open>override_bucket\<close>. The session the backend returns for it has that bucket as its
  priority bucket, and the state Generate leaves has the next priority bucket it had; a
  Complete of the session then stores the successor of that stored bucket, whatever the
  override was. On the client, \<open>generateSession\<close> leaves \<open>userState\<close> alone, and
  \<open>handleComplete\<close> clears the local override once its request has been answered.
\<close>

theorem override_bucket_is_one_shot:
  assumes ov: "overrideBucket (hstore h) = Some b" and nonempty: "b \<noteq> []"
      and gen: "generate_request select new_id now (generate_payload h) st = Inr (sess, st')"
      and shown: "truthy (currentSession (store s))"
  shows "requests (snd (generateSession r h)) = [Fetch POST ''/api/generate'' (generate_payload h)] \<and>
         js_get_opt (generate_payload h) ''override_bucket'' = JStr b \<and>
         priority_bucket sess = b \<and>
         next_priority_bucket st' = next_priority_bucket st \<and>
         next_priority_bucket (Complete sess with_power fb t st') = successor (next_priority_bucket st) \<and>
         userState (hstore (fst (generateSession r h))) = userState (hstore h) \<and>
         overrideBucket (store (fst (handleComplete fb (HttpResponse ok body) s))) = None"
proof -
  have carried: "js_get_opt (generate_payload h) ''override_bucket'' = JStr b"
    using ov nonempty by (simp add: payload_override override_or_undefined_def js_or_def)
  from gen obtain q where
    dq: "decode_questionnaire (generate_payload h) = Inr q" and
    g: "Generate select new_id now q st = Inr (sess, st')"
    by (auto simp add: generate_request_def js_bind_def split: sum.splits)
  from decoded_override [OF dq] carried have qo: "q_override_bucket q = Some b"
    by simp
  from Generate_result [OF g] qo have pb: "priority_bucket sess = b"
    by (simp add: resolve_bucket_def)
  from Generate_result [OF g] have "st' = snd (determine_day_type q st)"
    by simp
  then have nb: "next_priority_bucket st' = next_priority_bucket st"
    by (simp add: determine_day_type_def fire_trigger_def)
  have rot: "next_priority_bucket (Complete sess with_power fb t st') = successor (next_priority_bucket st)"
    by (simp add: Complete_rotation nb)
  have cleared: "overrideBucket (store (fst (handleComplete fb (HttpResponse ok body) s))) = None"
    by (simp add: handleComplete_resolved [OF shown] setOverrideBucket_def setCurrentSession_def)
  from decoded_complete [OF dq] have sent:
    "requests (snd (generateSession r h)) = [Fetch POST ''/api/generate'' (generate_payload h)]"
    by (simp add: generateSession_requests)
  from sent carried pb nb rot cleared generateSession_userState show ?thesis
    by blast
qed

lemma decode_example_payload:
  "decode_questionnaire (generate_payload override_home) =
     Inr (example_questionnaire\<lparr>q_override_bucket := Some ''pull''\<rparr>)"
  unfolding generate_payload_def stringify_questionnaire
  by (simp add: decode_questionnaire_def override_home_def open_home_screen_def initial_store_def
      example_answers_def questionnaire_fields_def nullable_def js_get_opt_def
      override_or_undefined_def js_or_def decode_feeling_def decode_sleep_def decode_pain_def
      decode_time_def decode_equipment_def js_bind_def example_questionnaire_def)

theorem override_bucket_is_one_shot_witness:
  "overrideBucket (hstore override_home) = Some ''pull'' \<and>
   truthy (currentSession (store example_session_screen)) \<and>
   generate_request example_selector ''s3'' ''2025-01-02'' (generate_payload override_home) default_state =
     Inr (example_session, default_state) \<and>
   next_priority_bucket default_state = Squat \<and>
   next_priority_bucket (Complete example_session False Good ''2025-01-02'' default_state) = Pull \<and>
   priority_bucket example_session = ''pull'' \<and>
   overrideBucket (store (fst (handleComplete Good (HttpResponse True None) example_session_screen))) = None"
proof -
  have ov: "overrideBucket (hstore override_home) = Some ''pull''"
    by (simp add: override_home_def open_home_screen_def initial_store_def)
  have sh: "truthy (currentSession (store example_session_screen))"
    by (simp add: example_session_screen_eq example_session_json_def)
  have g: "generate_request example_selector ''s3'' ''2025-01-02'' (generate_payload override_home) default_state =
     Inr (example_session, default_state)"
    by (simp add: generate_request_def decode_example_payload js_bind_def Generate_def
        example_selector_def determine_day_type_def real_trigger_def classify_answers_def
        resolve_bucket_def example_questionnaire_def default_state_def example_session_def)
  from override_bucket_is_one_shot [OF ov _ g sh,
      where r = NetworkError and with_power = False and fb = Good and t = "''2025-01-02''"
        and ok = True and body = None]
  show ?thesis
    using ov sh g by (simp add: default_state_def)
qed

section \<open>The cooldown override\<close>

lemma toggleCooldownOverride_requests:
  "truthy (userState cs) \<Longrightarrow>
     requests (snd (toggleCooldownOverride r cs)) =
       [Fetch PUT ''/api/settings''
          (JObj [(''cooldown_override'',
                  JBool (\<not> truthy (js_get_opt (userState cs) ''cooldown_override'')))])]"
  by (simp add: toggleCooldownOverride_def requests_def stringify_obj_def Let_def
      split: response.splits option.splits)

lemma toggleCooldownOverride_reply:
  "truthy (userState cs) \<Longrightarrow>
     userState (fst (toggleCooldownOverride (HttpResponse ok (Some data)) cs)) = data"
  by (simp add: toggleCooldownOverride_def setUserState_def Let_def)

lemma settings_request_override:
  "settings_request (JObj [(''cooldown_override'', JBool b)]) st = Inr (st\<lparr>cooldown_override := b\<rparr>)"
  by (simp add: settings_request_def decode_settings_def decode_week_mode_def
      decode_power_frequency_def js_get_opt_def js_bind_def UpdateSettings_def)

lemma override_inert_without_cooldown:
  "cooldown_counter st = 0 \<Longrightarrow>
     fst (determine_day_type q (st\<lparr>cooldown_override := b\<rparr>)) = fst (determine_day_type q st)"
  by (simp add: determine_day_type_def)

lemma override_effective_in_cooldown:
  "cooldown_counter st > 0 \<Longrightarrow> \<not> real_trigger q \<Longrightarrow>
     fst (determine_day_type q (st\<lparr>cooldown_override := False\<rparr>)) = Easy \<and>
     fst (determine_day_type q (st\<lparr>cooldown_override := True\<rparr>)) =
       classify_answers (q_feeling q) (q_sleep q)"
  by (simp add: determine_day_type_def)

text \<open>
  C7. With any state loaded in the client (any truthy \<open>userState\<close>, whatever its
  properties), \<open>toggleCooldownOverride\<close> issues one request: a PUT to /api/settings whose
  body is the boolean negation of the \<open>cooldown_override\<close> the client holds, so \<open>false\<close>
  for a stored \<open>true\<close> and \<open>true\<close> for a stored \<open>false\<close>; the reply becomes the client's
  \<open>userState\<close>. The settings write stores the value sent whatever the cooldown counter is
  and changes nothing else. With cooldown_counter = 0 the day type does not depend on the
  stored override; with cooldown_counter > 0 and no real trigger it does: easy without the
  override, the classification of the answers with it.
\<close>

theorem cooldown_override_toggle:
  assumes loaded: "truthy (userState cs)"
  shows "requests (snd (toggleCooldownOverride r cs)) =
           [Fetch PUT ''/api/settings''
              (JObj [(''cooldown_override'',
                      JBool (\<not> truthy (js_get_opt (userState cs) ''cooldown_override'')))])] \<and>
         (js_get_opt (userState cs) ''cooldown_override'' = JBool v \<longrightarrow>
            requests (snd (toggleCooldownOverride r cs)) =
              [Fetch PUT ''/api/settings'' (JObj [(''cooldown_override'', JBool (\<not> v))])]) \<and>
         userState (fst (toggleCooldownOverride (HttpResponse ok (Some data)) cs)) = data \<and>
         settings_request (JObj [(''cooldown_override'', JBool b)]) st =
           Inr (st\<lparr>cooldown_override := b\<rparr>) \<and>
         (cooldown_counter st = 0 \<longrightarrow>
            fst (determine_day_type q (st\<lparr>cooldown_override := b\<rparr>)) = fst (determine_day_type q st)) \<and>
         (cooldown_counter st > 0 \<and> \<not> real_trigger q \<longrightarrow>
            fst (determine_day_type q (st\<lparr>cooldown_override := False\<rparr>)) = Easy \<and>
            fst (determine_day_type q (st\<lparr>cooldown_override := True\<rparr>)) =
              classify_answers (q_feeling q) (q_sleep q))"
proof -
  note sent = toggleCooldownOverride_requests [OF loaded, of r]
  have negated: "js_get_opt (userState cs) ''cooldown_override'' = JBool v \<longrightarrow>
            requests (snd (toggleCooldownOverride r cs)) =
              [Fetch PUT ''/api/settings'' (JObj [(''cooldown_override'', JBool (\<not> v))])]"
    using sent by simp
  from sent negated toggleCooldownOverride_reply [OF loaded, of ok data]
    settings_request_override [of b st] override_inert_without_cooldown [of st q b]
    override_effective_in_cooldown [of st q]
  show ?thesis by blast
qed

theorem cooldown_override_toggle_witness:
  "truthy (userState (initial_store\<lparr>userState := cooling_user_state_json\<rparr>)) \<and>
   js_get_opt cooling_user_state_json ''id'' = JStr ''default'' \<and>
   js_get_opt cooling_user_state_json ''cooldown_override'' = JBool True \<and>
   requests (snd (toggleCooldownOverride NetworkError
                    (initial_store\<lparr>userState := cooling_user_state_json\<rparr>))) =
     [Fetch PUT ''/api/settings'' (JObj [(''cooldown_override'', JBool False)])] \<and>
   userState (fst (toggleCooldownOverride (HttpResponse True (Some fresh_user_state_json))
                    (initial_store\<lparr>userState := cooling_user_state_json\<rparr>))) =
     fresh_user_state_json \<and>
   settings_request (JObj [(''cooldown_override'', JBool False)]) overridden_state =
     Inr (overridden_state\<lparr>cooldown_override := False\<rparr>) \<and>
   cooldown_counter overridden_state = 1 \<and> \<not> real_trigger example_questionnaire \<and>
   fst (determine_day_type example_questionnaire (overridden_state\<lparr>cooldown_override := False\<rparr>)) = Easy \<and>
   fst (determine_day_type example_questionnaire (overridden_state\<lparr>cooldown_override := True\<rparr>)) = Hard \<and>
   cooldown_counter default_state = 0 \<and>
   fst (determine_day_type example_questionnaire (default_state\<lparr>cooldown_override := True\<rparr>)) =
     fst (determine_day_type example_questionnaire default_state)"
proof -
  have l: "truthy (userState (initial_store\<lparr>userState := cooling_user_state_json\<rparr>))"
    by (simp add: cooling_user_state_json_def)
  have j: "js_get_opt cooling_user_state_json ''id'' = JStr ''default''"
    "js_get_opt cooling_user_state_json ''cooldown_override'' = JBool True"
    by (simp_all add: cooling_user_state_json_def js_get_opt_def)
  have c: "cooldown_counter overridden_state = 1" "\<not> real_trigger example_questionnaire"
    "cooldown_counter default_state = 0"
    "classify_answers (q_feeling example_questionnaire) (q_sleep example_questionnaire) = Hard"
    by (simp_all add: overridden_state_def default_state_def real_trigger_def
        example_questionnaire_def classify_answers_def)
  from cooldown_override_toggle [OF l, where r = NetworkError and v = True and ok = True
      and data = fresh_user_state_json and b = False and st = overridden_state
      and q = example_questionnaire]
    cooldown_override_toggle [OF l, where r = NetworkError and v = True and ok = True
      and data = fresh_user_state_json and b = True and st = default_state
      and q = example_questionnaire]
  show ?thesis
    using l j c by simp
qed

section \<open>Reroll\<close>

lemma handleReroll_requests:
  "lastQuestionnaire (store s) = Some cq \<Longrightarrow>
     requests (snd (handleReroll r s)) = [Fetch POST ''/api/reroll'' (JObj (questionnaire_fields cq))]"
  by (simp add: handleReroll_def requests_def Let_def split: response.splits option.splits sum.splits)

lemma reroll_body_has_no_flags:
  "js_get_opt (JObj (questionnaire_fields cq)) ''preserve_day_type'' = JUndefined \<and>
   js_get_opt (JObj (questionnaire_fields cq)) ''preserve_priority_bucket'' = JUndefined \<and>
   js_get_opt (JObj (questionnaire_fields cq)) ''override_bucket'' = JUndefined"
  by (simp add: questionnaire_fields_def js_get_opt_def)

lemma reroll_request_defaults:
  "decode_questionnaire (JObj (questionnaire_fields cq)) = Inr q \<Longrightarrow>
     reroll_request select new_id now (JObj (questionnaire_fields cq)) prev st =
       Reroll select new_id now q None None prev st"
  by (simp add: reroll_request_def js_bind_def reroll_body_has_no_flags)

lemma Reroll_preserved:
  "flag_or_true pd \<Longrightarrow> flag_or_true pb \<Longrightarrow>
   Reroll select new_id now q pd pb prev st = Inr sess \<Longrightarrow>
     day_type sess = day_type prev \<and> priority_bucket sess = priority_bucket prev \<and>
     session_equipment sess = q_equipment q \<and> time_slot sess = q_time_available q"
  by (auto simp add: Reroll_def assemble_def Let_def split: sum.splits)

text \<open>
  C2. \<open>handleReroll\<close> sends the stored questionnaire and nothing else, so the backend
  reads both flags at their default, true. A Reroll with both flags true or left out, on
  the answers the session being rerolled was generated from, returns a session with the
  day type, priority bucket, equipment and time slot of that session.
\<close>

theorem reroll_keeps_session_constraints:
  assumes stored: "lastQuestionnaire (store s) = Some cq"
      and read: "decode_questionnaire (JObj (questionnaire_fields cq)) = Inr q"
      and original: "Generate select0 id0 t0 (q\<lparr>q_override_bucket := ob\<rparr>) st0 = Inr (prev, st1)"
      and flags: "flag_or_true pd" "flag_or_true pb"
      and rerolled: "Reroll select new_id now q pd pb prev st = Inr sess"
  shows "requests (snd (handleReroll r s)) = [Fetch POST ''/api/reroll'' (JObj (questionnaire_fields cq))] \<and>
         reroll_request select new_id now (JObj (questionnaire_fields cq)) prev st =
           Reroll select new_id now q None None prev st \<and>
         day_type sess = day_type prev \<and>
         priority_bucket sess = priority_bucket prev \<and>
         session_equipment sess = session_equipment prev \<and>
         time_slot sess = time_slot prev"
proof -
  from Generate_result [OF original]
  have p: "time_slot prev = q_time_available q" "session_equipment prev = q_equipment q"
    by simp_all
  from Reroll_preserved [OF flags rerolled] p
  have "day_type sess = day_type prev \<and> priority_bucket sess = priority_bucket prev \<and>
        session_equipment sess = session_equipment prev \<and> time_slot sess = time_slot prev"
    by simp
  with handleReroll_requests [OF stored] reroll_request_defaults [OF read]
  show ?thesis by blast
qed

lemma decode_example_answers:
  "decode_questionnaire (JObj (questionnaire_fields example_answers)) = Inr example_questionnaire"
  by (simp add: decode_questionnaire_def example_answers_def questionnaire_fields_def nullable_def
      js_get_opt_def decode_feeling_def decode_sleep_def decode_pain_def decode_time_def
      decode_equipment_def js_bind_def example_questionnaire_def)

theorem reroll_keeps_session_constraints_witness:
  "lastQuestionnaire (store reroll_screen) = Some example_answers \<and>
   decode_questionnaire (JObj (questionnaire_fields example_answers)) = Inr example_questionnaire \<and>
   Generate example_selector ''s3'' ''2025-01-02''
       (example_questionnaire\<lparr>q_override_bucket := Some ''pull''\<rparr>) default_state =
     Inr (example_session, default_state) \<and>
   Reroll example_selector ''s4'' ''2025-01-03'' example_questionnaire None None example_session
       cooling_state =
     Inr (assemble ''s4'' ''2025-01-03'' example_questionnaire cooling_state Hard ''pull''
            [squat_exercise, plank_exercise]) \<and>
   fst (determine_day_type example_questionnaire cooling_state) = Easy \<and>
   resolve_bucket (q_override_bucket example_questionnaire) cooling_state = ''hinge'' \<and>
   day_type (assemble ''s4'' ''2025-01-03'' example_questionnaire cooling_state Hard ''pull''
            [squat_exercise, plank_exercise]) = day_type example_session \<and>
   time_slot (assemble ''s4'' ''2025-01-03'' example_questionnaire cooling_state Hard ''pull''
            [squat_exercise, plank_exercise]) = time_slot example_session \<and>
   requests (snd (handleReroll NetworkError reroll_screen)) =
     [Fetch POST ''/api/reroll'' (JObj (questionnaire_fields example_answers))]"
proof -
  have st: "lastQuestionnaire (store reroll_screen) = Some example_answers"
    by (simp add: reroll_screen_def)
  have g: "Generate example_selector ''s3'' ''2025-01-02''
       (example_questionnaire\<lparr>q_override_bucket := Some ''pull''\<rparr>) default_state =
     Inr (example_session, default_state)"
    by (simp add: Generate_def example_selector_def determine_day_type_def real_trigger_def
        classify_answers_def resolve_bucket_def example_questionnaire_def default_state_def
        example_session_def)
  have f: "flag_or_true None"
    by (simp add: flag_or_true_def)
  have rr: "Reroll example_selector ''s4'' ''2025-01-03'' example_questionnaire None None example_session
       cooling_state =
     Inr (assemble ''s4'' ''2025-01-03'' example_questionnaire cooling_state Hard ''pull''
            [squat_exercise, plank_exercise])"
    by (simp add: Reroll_def flag_or_true_def example_selector_def example_session_def assemble_def)
  have re: "fst (determine_day_type example_questionnaire cooling_state) = Easy"
    "resolve_bucket (q_override_bucket example_questionnaire) cooling_state = ''hinge''"
    by (simp_all add: determine_day_type_def real_trigger_def example_questionnaire_def
        cooling_state_def default_state_def resolve_bucket_def)
  from reroll_keeps_session_constraints [OF st decode_example_answers g f f rr, of NetworkError]
  show ?thesis
    using st decode_example_answers g rr re by simp
qed

end
